theory Spec2Isabelle
  imports Complex_Main
begin

section \<open>Two-way standardization (inverse\_covariance/two\_way\_standard\_scaler.py)\<close>

text \<open>
  The module has one free function, \<open>two_way_standardize\<close>, and one estimator class,
  \<open>TwoWayStandardScaler\<close>, with the methods \<open>fit\<close>, \<open>transform\<close> and
  \<open>inverse_transform\<close>. NumPy's float64 values are modelled as reals: rounding, NaN and
  infinite entries are outside the model. A two-dimensional array is a list of rows.
\<close>

subsection \<open>Arrays\<close>

type_synonym vector = "real list"
type_synonym matrix = "real list list"

definition ncols :: "matrix \<Rightarrow> nat" where
  "ncols M = (case M of [] \<Rightarrow> 0 | r # _ \<Rightarrow> length r)"

text \<open>\<open>np.shape(X)\<close> of a two-dimensional array.\<close>

definition shape :: "matrix \<Rightarrow> nat \<times> nat" where
  "shape M = (length M, ncols M)"

text \<open>A list of rows is a two-dimensional array with at least one row and one column
  when all rows have the same positive length.\<close>

definition is_2d :: "matrix \<Rightarrow> bool" where
  "is_2d M = (M \<noteq> [] \<and> 0 < ncols M \<and> list_all (\<lambda>r. length r = ncols M) M)"

text \<open>\<open>X.T\<close>: entry \<open>(j, i)\<close> of the transpose is entry \<open>(i, j)\<close> of \<open>X\<close>.\<close>

definition T :: "matrix \<Rightarrow> matrix" where
  "T M = map (\<lambda>j. map (\<lambda>r. r ! j) M) [0..<ncols M]"

text \<open>\<open>A - B\<close> on arrays of one shape, and \<open>np.linalg.norm(A, "fro")\<close>.\<close>

definition msub :: "matrix \<Rightarrow> matrix \<Rightarrow> matrix" where
  "msub A B = map2 (\<lambda>a b. map2 (\<lambda>x y. x - y) a b) A B"

definition norm_fro :: "matrix \<Rightarrow> real" where
  "norm_fro A = sqrt (sum_list (map (\<lambda>x. x * x) (concat A)))"

subsection \<open>Errors and inputs\<close>

text \<open>The exceptions of the module. \<open>NotImplementedError\<close> is the spec's
  \<open>UnsupportedInputKind\<close>; \<open>TypeError\<close> is what Python raises when the module calls the
  constant \<open>NotImplemented\<close> (which is not callable), when an array is multiplied in
  place by \<open>None\<close>, and what the validator raises for a sparse argument;
  \<open>ValueError\<close> is the validator's and NumPy's complaint about a shape.\<close>

datatype error = NotFittedError | NotImplementedError | TypeError | ValueError

text \<open>What a caller may pass where the value alone matters: a dense array(-like) of
  floats or a \<open>scipy.sparse\<close> matrix.\<close>

datatype array_like = Dense matrix | Sparse

definition issparse :: "array_like \<Rightarrow> bool" where
  "issparse X = (case X of Sparse \<Rightarrow> True | Dense _ \<Rightarrow> False)"

text \<open>Modelled from the spec: \<open>sklearn.utils.check_array\<close>, the external array validator,
  called with \<open>accept_sparse=None\<close>. It "returns a dense floating-point array or raises
  on sparse/non-finite input"; a dense argument must be two-dimensional with at least one
  row and one column. Its \<open>copy\<close> flag only decides whether the result is a fresh array,
  which no caller in this module can observe, since none writes to the result. The
  exception classes are sklearn's (\<open>TypeError\<close> for a sparse argument, \<open>ValueError\<close>
  for a bad shape); the properties below only use that it raises.\<close>

definition check_array :: "array_like \<Rightarrow> error + array_like" where
  "check_array X =
     (case X of
        Sparse \<Rightarrow> Inl TypeError
      | Dense M \<Rightarrow> if is_2d M then Inr (Dense M) else Inl ValueError)"

subsection \<open>The one-axis scaler\<close>

definition mean :: "vector \<Rightarrow> real" where
  "mean xs = sum_list xs / real (length xs)"

text \<open>\<open>np.var\<close> and \<open>np.std\<close> with the default \<open>ddof=0\<close>.\<close>

definition var :: "vector \<Rightarrow> real" where
  "var xs = mean (map (\<lambda>x. (x - mean xs) * (x - mean xs)) xs)"

definition std :: "vector \<Rightarrow> real" where
  "std xs = sqrt (var xs)"

text \<open>Modelled from the spec: \<open>sklearn.preprocessing.data._handle_zeros_in_scale\<close>, "any
  near-zero standard deviation replaced by 1.0"; over the reals near-zero is zero.\<close>

definition handle_zeros_in_scale :: "real \<Rightarrow> real" where
  "handle_zeros_in_scale s = (if s = 0 then 1 else s)"

text \<open>Modelled from the spec: \<open>sklearn.preprocessing.scale(X, axis=1, with_mean=True,
  with_std=with_std)\<close>, the external one-axis scale function: "centering subtracts the
  per-unit mean; scaling divides by the per-unit standard deviation". With \<open>axis=1\<close> the
  unit is a row of the argument. It works on a copy.\<close>

definition scale_row :: "bool \<Rightarrow> vector \<Rightarrow> vector" where
  "scale_row with_std xs =
     (let centred = map (\<lambda>x. x - mean xs) xs
      in if with_std then map (\<lambda>x. x / handle_zeros_in_scale (std xs)) centred
         else centred)"

definition scale :: "matrix \<Rightarrow> bool \<Rightarrow> matrix" where
  "scale X with_std = map (scale_row with_std) X"

subsection \<open>\<open>two_way_standardize\<close>\<close>

text \<open>The local variables of the loop (lines 75 to 98). \<open>err_norm\<close> starts as
  \<open>np.inf\<close>, which is \<open>None\<close> here. \<open>printed\<close> collects the pairs that
  \<open>verbose=True\<close> prints, one per iteration.\<close>

record loop_state =
  Xrow_polish :: matrix
  Xcol_polish :: matrix
  n_iter :: nat
  err_norm :: "real option"
  oldXrow :: matrix
  oldXcol :: matrix
  printed :: "(nat \<times> real) list"

text \<open>\<open>err_norm > tol\<close>, where \<open>np.inf\<close> is above every finite tolerance.\<close>

definition exceeds :: "real option \<Rightarrow> real \<Rightarrow> bool" where
  "exceeds e tol = (case e of None \<Rightarrow> True | Some x \<Rightarrow> tol < x)"

text \<open>Lines 75 to 82.\<close>

definition loop_init :: "matrix \<Rightarrow> loop_state" where
  "loop_init X =
     \<lparr>Xrow_polish = T X, Xcol_polish = X, n_iter = 0, err_norm = None,
      oldXrow = T X, oldXcol = X, printed = []\<rparr>"

text \<open>Lines 84 to 97: one pass through the body of the \<open>while\<close>.\<close>

definition loop_body :: "bool \<Rightarrow> nat \<Rightarrow> nat \<Rightarrow> bool \<Rightarrow> loop_state \<Rightarrow> loop_state" where
  "loop_body with_std n_rows n_cols verbose s =
     (let Xcol = scale (T (Xrow_polish s)) with_std;
          Xrow = scale (T Xcol) with_std;
          n = n_iter s + 1;
          err_norm_row = norm_fro (msub (oldXrow s) Xrow);
          err_norm_col = norm_fro (msub (oldXcol s) Xcol);
          err = 0.5 * err_norm_row / real (n_rows * n_cols)
              + 0.5 * err_norm_col / real (n_rows * n_cols)
      in \<lparr>Xrow_polish = Xrow, Xcol_polish = Xcol, n_iter = n, err_norm = Some err,
          oldXrow = Xrow, oldXcol = Xcol,
          printed = (if verbose then printed s @ [(n, err)] else printed s)\<rparr>)"

text \<open>Line 83: the guard of the \<open>while\<close>.\<close>

definition loop_guard :: "int \<Rightarrow> real \<Rightarrow> loop_state \<Rightarrow> bool" where
  "loop_guard max_iter tol s = (int (n_iter s) \<le> max_iter \<and> exceeds (err_norm s) tol)"

function while_loop ::
  "bool \<Rightarrow> nat \<Rightarrow> nat \<Rightarrow> bool \<Rightarrow> int \<Rightarrow> real \<Rightarrow> loop_state \<Rightarrow> loop_state" where
  "while_loop with_std n_rows n_cols verbose max_iter tol s =
     (if loop_guard max_iter tol s
      then while_loop with_std n_rows n_cols verbose max_iter tol
             (loop_body with_std n_rows n_cols verbose s)
      else s)"
  by pat_completeness auto
termination
  by (relation "measure (\<lambda>(ws, r, c, v, max_iter, tol, s). nat (max_iter + 1 - int (n_iter s)))")
     (auto simp: loop_guard_def loop_body_def Let_def)

declare while_loop.simps [simp del]

text \<open>Lines 75 to 98: the state in which the loop ends.\<close>

definition run_loop :: "matrix \<Rightarrow> bool \<Rightarrow> int \<Rightarrow> real \<Rightarrow> bool \<Rightarrow> loop_state" where
  "run_loop X with_std max_iter tol verbose =
     (let (n_rows, n_cols) = shape X
      in while_loop with_std n_rows n_cols verbose max_iter tol (loop_init X))"

text \<open>Lines 14 to 99. The parameters \<open>axis\<close> and \<open>with_mean\<close> are never read by the
  body, and \<open>copy\<close> is only passed on to the validator. After the validator the function
  tests \<open>sparse.issparse\<close> and raises by calling \<open>NotImplemented(...)\<close>, which is a
  \<open>TypeError\<close> in Python.\<close>

definition two_way_standardize ::
  "array_like \<Rightarrow> bool \<Rightarrow> int \<Rightarrow> real \<Rightarrow> bool \<Rightarrow> error + matrix" where
  "two_way_standardize X with_std max_iter tol verbose =
     (case check_array X of
        Inl e \<Rightarrow> Inl e
      | Inr X' \<Rightarrow>
          (case X' of
             Sparse \<Rightarrow> Inl TypeError
           | Dense M \<Rightarrow> Inr (T (Xrow_polish (run_loop M with_std max_iter tol verbose)))))"

subsection \<open>The estimator \<open>TwoWayStandardScaler\<close>\<close>

text \<open>The attributes that \<open>fit\<close> sets (their trailing underscore dropped). A variance or
  a scale is \<open>None\<close> when the estimator was fitted with \<open>with_std=False\<close>.\<close>

record fitted_attrs =
  col_mean :: vector
  n_rows_seen :: nat
  col_var :: "vector option"
  row_mean :: vector
  n_cols_seen :: nat
  row_var :: "vector option"
  row_scale :: "vector option"
  col_scale :: "vector option"

text \<open>The object: the three constructor options, and the fitted attributes, which do not
  exist (\<open>None\<close>) until a call of \<open>fit\<close> has succeeded. \<open>fit\<close> sets them all after
  its only raising statements, so they exist together or not at all.\<close>

record estimator =
  with_mean :: bool
  with_std :: bool
  copy :: bool
  fitted :: "fitted_attrs option"

text \<open>Lines 164 to 172: \<open>__init__(self, copy=True, with_mean=True, with_std=True)\<close>.\<close>

definition TwoWayStandardScaler :: "bool \<Rightarrow> bool \<Rightarrow> bool \<Rightarrow> estimator" where
  "TwoWayStandardScaler copy' with_mean' with_std' =
     \<lparr>with_mean = with_mean', with_std = with_std', copy = copy', fitted = None\<rparr>"

text \<open>Modelled from the spec: \<open>sklearn.utils.validation.check_is_fitted(self,
  "row_scale_")\<close>, the external guard of the state machine \<open>{Unfit, Fit}\<close>: it raises
  \<open>NotFittedError\<close> when the object has no attribute \<open>row_scale_\<close>, whatever the
  attribute's value (\<open>None\<close> included).\<close>

definition check_is_fitted :: "estimator \<Rightarrow> error + fitted_attrs" where
  "check_is_fitted self = (case fitted self of None \<Rightarrow> Inl NotFittedError | Some a \<Rightarrow> Inr a)"

text \<open>Modelled from the spec: \<open>sklearn.utils.extmath._incremental_mean_and_var\<close>, the
  external accumulator that "folds a new batch of observations into running mean,
  variance, and sample count", started as \<open>fit\<close> starts it: mean \<open>0.\<close>, count \<open>0\<close>, and
  variance \<open>0.\<close> (\<open>with_var\<close>) or \<open>None\<close>. The observations are the rows of the batch, so
  there is one mean and one variance per column.\<close>

definition incremental_mean_and_var :: "matrix \<Rightarrow> bool \<Rightarrow> vector \<times> vector option \<times> nat" where
  "incremental_mean_and_var X with_var =
     (map mean (T X), (if with_var then Some (map var (T X)) else None), length X)"

text \<open>Lines 174 to 223. The sparse test after the validator raises by calling
  \<open>NotImplemented(...)\<close>, as in \<open>two_way_standardize\<close>.\<close>

definition fit :: "estimator \<Rightarrow> array_like \<Rightarrow> error + estimator" where
  "fit self X =
     (case check_array X of
        Inl e \<Rightarrow> Inl e
      | Inr X' \<Rightarrow>
          (case X' of
             Sparse \<Rightarrow> Inl TypeError
           | Dense M \<Rightarrow>
               (let (col_mean', col_var', n_rows_seen') =
                      incremental_mean_and_var M (with_std self);
                    (row_mean', row_var', n_cols_seen') =
                      incremental_mean_and_var (T M) (with_std self);
                    row_scale' =
                      (if with_std self
                       then map_option (map (\<lambda>v. handle_zeros_in_scale (sqrt v))) row_var'
                       else None);
                    col_scale' =
                      (if with_std self
                       then map_option (map (\<lambda>v. handle_zeros_in_scale (sqrt v))) col_var'
                       else None)
                in Inr (self\<lparr>fitted := Some
                     \<lparr>col_mean = col_mean', n_rows_seen = n_rows_seen', col_var = col_var',
                      row_mean = row_mean', n_cols_seen = n_cols_seen', row_var = row_var',
                      row_scale = row_scale', col_scale = col_scale'\<rparr>\<rparr>))))"

text \<open>Lines 225 to 247. The call on line 247 passes the array alone, so the procedure runs
  with its defaults \<open>with_std=True\<close>, \<open>max_iter=50\<close>, \<open>tol=1e-6\<close>, \<open>verbose=False\<close>.
  The parameters \<open>y\<close> and \<open>copy\<close> do not change the value returned.\<close>

definition transform :: "estimator \<Rightarrow> array_like \<Rightarrow> error + matrix" where
  "transform self X =
     (case check_is_fitted self of
        Inl e \<Rightarrow> Inl e
      | Inr _ \<Rightarrow>
          (case check_array X of
             Inl e \<Rightarrow> Inl e
           | Inr X' \<Rightarrow>
               if issparse X' then Inl NotImplementedError
               else two_way_standardize X' True 50 (1 / 10 ^ 6) False))"

subsection \<open>\<open>inverse_transform\<close>: arrays in a store\<close>

text \<open>\<open>inverse_transform\<close> updates an array in place, so here arrays live in a store. The
  store is the list of the buffers allocated so far and an address is an index into it.
  An \<open>ndarray\<close> object is a view of a buffer: \<open>X.T\<close> is a view of the buffer of \<open>X\<close>
  with the two axes swapped, not a copy. The warnings issued so far are part of the
  state.\<close>

record ndarray =
  buf :: nat
  transposed :: bool

record world =
  heap :: "matrix list"
  warnings :: "string list"

text \<open>The argument of \<open>inverse_transform\<close>: an array object of floats, an array-like that
  is not an array (nested lists of floats), or a sparse matrix.\<close>

datatype pyobj = Array ndarray | Nested matrix | SparseMatrix

definition view_value :: "world \<Rightarrow> ndarray \<Rightarrow> matrix" where
  "view_value w X = (if transposed X then T (heap w ! buf X) else heap w ! buf X)"

definition view_store :: "world \<Rightarrow> ndarray \<Rightarrow> matrix \<Rightarrow> world" where
  "view_store w X M = w\<lparr>heap := (heap w)[buf X := (if transposed X then T M else M)]\<rparr>"

text \<open>A new array with a buffer of its own: what \<open>np.asarray\<close> makes of nested lists, and
  what \<open>X.copy()\<close> makes.\<close>

definition new_array :: "matrix \<Rightarrow> world \<Rightarrow> ndarray \<times> world" where
  "new_array M w = (\<lparr>buf = length (heap w), transposed = False\<rparr>, w\<lparr>heap := heap w @ [M]\<rparr>)"

definition ndarray_copy :: "ndarray \<Rightarrow> world \<Rightarrow> ndarray \<times> world" where
  "ndarray_copy X w = new_array (view_value w X) w"

definition ndarray_T :: "ndarray \<Rightarrow> ndarray" where
  "ndarray_T X = X\<lparr>transposed := \<not> transposed X\<rparr>"

text \<open>\<open>warnings.warn(msg)\<close>.\<close>

definition warn :: "string \<Rightarrow> world \<Rightarrow> world" where
  "warn msg w = w\<lparr>warnings := warnings w @ [msg]\<rparr>"

text \<open>NumPy's broadcasting of a one-dimensional operand against a two-dimensional array
  that receives the result: the operand runs along the second axis, its length must be
  the number of columns or one, and any other length is a \<open>ValueError\<close>.\<close>

definition broadcast :: "(real \<Rightarrow> real \<Rightarrow> real) \<Rightarrow> matrix \<Rightarrow> vector \<Rightarrow> error + matrix" where
  "broadcast f M v =
     (if length v = ncols M then Inr (map (\<lambda>r. map2 f r v) M)
      else if length v = 1 then Inr (map (map (\<lambda>x. f x (hd v))) M)
      else Inl ValueError)"

text \<open>\<open>X *= operand\<close> and \<open>X += operand\<close>: the result is written through the view into
  its buffer. An operand \<open>None\<close> is a \<open>TypeError\<close>.\<close>

definition inplace ::
  "(real \<Rightarrow> real \<Rightarrow> real) \<Rightarrow> ndarray \<Rightarrow> vector option \<Rightarrow> world \<Rightarrow> error + world" where
  "inplace f X operand w =
     (case operand of
        None \<Rightarrow> Inl TypeError
      | Some v \<Rightarrow>
          (case broadcast f (view_value w X) v of
             Inl e \<Rightarrow> Inl e
           | Inr M \<Rightarrow> Inr (view_store w X M)))"

text \<open>Lines 270 to 290, after \<open>np.asarray\<close>. An exception leaves the store as the
  statements before it have made it.\<close>

definition inverse_steps ::
  "estimator \<Rightarrow> fitted_attrs \<Rightarrow> ndarray \<Rightarrow> bool \<Rightarrow> world \<Rightarrow> (error + ndarray) \<times> world" where
  "inverse_steps self a X0 copy' w0 =
     (let (X1, w1) = (if copy' then ndarray_copy X0 w0 else (X0, w0));
          X2 = ndarray_T X1
      in case (if with_std self then inplace (*) X2 (row_scale a) w1 else Inr w1) of
           Inl e \<Rightarrow> (Inl e, w1)
         | Inr w2 \<Rightarrow>
        (case (if with_mean self then inplace (+) X2 (Some (row_mean a)) w2 else Inr w2) of
           Inl e \<Rightarrow> (Inl e, w2)
         | Inr w3 \<Rightarrow>
        (let X3 = ndarray_T X2
         in case (if with_std self then inplace (*) X3 (col_scale a) w3 else Inr w3) of
              Inl e \<Rightarrow> (Inl e, w3)
            | Inr w4 \<Rightarrow>
           (case (if with_mean self then inplace (+) X3 (Some (col_mean a)) w4 else Inr w4) of
              Inl e \<Rightarrow> (Inl e, w4)
            | Inr w5 \<Rightarrow> (Inr X3, w5)))))"

text \<open>Lines 249 to 290.\<close>

definition inverse_transform ::
  "estimator \<Rightarrow> pyobj \<Rightarrow> bool \<Rightarrow> world \<Rightarrow> (error + ndarray) \<times> world" where
  "inverse_transform self X copy' w =
     (case check_is_fitted self of
        Inl e \<Rightarrow> (Inl e, w)
      | Inr a \<Rightarrow>
          (case X of
             SparseMatrix \<Rightarrow> (Inl NotImplementedError, w)
           | Array X0 \<Rightarrow>
               inverse_steps self a X0 copy'
                 (warn ''Reversing two way transformation is not accurate.'' w)
           | Nested M \<Rightarrow>
               (let (X0, w0) =
                      new_array M (warn ''Reversing two way transformation is not accurate.'' w)
                in inverse_steps self a X0 copy' w0)))"

subsection \<open>Invariants used below\<close>

text \<open>For an input with \<open>r\<close> rows and \<open>c\<close> columns, the row-working matrix of the loop
  is a two-dimensional array with \<open>c\<close> rows and \<open>r\<close> columns.\<close>

definition row_shaped :: "nat \<Rightarrow> nat \<Rightarrow> loop_state \<Rightarrow> bool" where
  "row_shaped r c s =
     (is_2d (Xrow_polish s) \<and> length (Xrow_polish s) = c \<and> ncols (Xrow_polish s) = r)"

text \<open>The state of the loop after \<open>k\<close> passes through its body, for the input \<open>X\<close>.\<close>

definition iteration :: "matrix \<Rightarrow> bool \<Rightarrow> bool \<Rightarrow> nat \<Rightarrow> loop_state" where
  "iteration X with_std' verbose k =
     (loop_body with_std' (length X) (ncols X) verbose ^^ k) (loop_init X)"

text \<open>A view is valid in a store when its buffer is allocated and holds a two-dimensional
  array. An argument of \<open>inverse_transform\<close> is dense when it is a valid array or nested
  lists that form a two-dimensional array; \<open>obj_value\<close> is the matrix it denotes.\<close>

definition valid_view :: "world \<Rightarrow> ndarray \<Rightarrow> bool" where
  "valid_view w X = (buf X < length (heap w) \<and> is_2d (heap w ! buf X))"

definition is_dense :: "world \<Rightarrow> pyobj \<Rightarrow> bool" where
  "is_dense w X =
     (case X of Array X0 \<Rightarrow> valid_view w X0 | Nested M \<Rightarrow> is_2d M | SparseMatrix \<Rightarrow> False)"

definition obj_value :: "world \<Rightarrow> pyobj \<Rightarrow> matrix" where
  "obj_value w X =
     (case X of Array X0 \<Rightarrow> view_value w X0 | Nested M \<Rightarrow> M | SparseMatrix \<Rightarrow> [])"

subsection \<open>The inverse as the spec words it\<close>

text \<open>The spec's description of \<open>inverse_transform\<close> as a function of values, with no
  store: "multiply by row-scale then add row-mean (operating on the transposed matrix),
  transpose back, then multiply by column-scale and add column-mean", each step taken only
  when its option is set. The elementwise operations are NumPy's, so an operand of the
  wrong length or a missing scale is an error here as well.\<close>

definition apply_if ::
  "bool \<Rightarrow> (real \<Rightarrow> real \<Rightarrow> real) \<Rightarrow> matrix \<Rightarrow> vector option \<Rightarrow> error + matrix" where
  "apply_if enabled f M operand =
     (if enabled
      then (case operand of None \<Rightarrow> Inl TypeError | Some v \<Rightarrow> broadcast f M v)
      else Inr M)"

definition inverse_spec :: "estimator \<Rightarrow> fitted_attrs \<Rightarrow> matrix \<Rightarrow> error + matrix" where
  "inverse_spec self a X =
     (case apply_if (with_std self) (*) (T X) (row_scale a) of
        Inl e \<Rightarrow> Inl e
      | Inr A \<Rightarrow>
     (case apply_if (with_mean self) (+) A (Some (row_mean a)) of
        Inl e \<Rightarrow> Inl e
      | Inr B \<Rightarrow>
     (case apply_if (with_std self) (*) (T B) (col_scale a) of
        Inl e \<Rightarrow> Inl e
      | Inr C \<Rightarrow> apply_if (with_mean self) (+) C (Some (col_mean a)))))"

text \<open>The matrix with \<open>r\<close> rows and \<open>c\<close> columns whose entry \<open>(i, j)\<close> is \<open>g i j\<close>.\<close>

definition table :: "nat \<Rightarrow> nat \<Rightarrow> (nat \<Rightarrow> nat \<Rightarrow> real) \<Rightarrow> matrix" where
  "table r c g = map (\<lambda>i. map (\<lambda>j. g i j) [0..<c]) [0..<r]"

subsection \<open>A fitted estimator and a store, for the examples\<close>

text \<open>The attributes that \<open>fit\<close> computes from \<open>[[1, 2], [3, 4]]\<close> with the default
  options, the estimator that holds them, and a store with one array,
  \<open>[[2, 4], [6, 8]]\<close>, at address 0.\<close>

definition fitted_1234 :: fitted_attrs where
  "fitted_1234 =
     \<lparr>col_mean = [2, 3], n_rows_seen = 2, col_var = Some [1, 1],
      row_mean = [3 / 2, 7 / 2], n_cols_seen = 2, row_var = Some [1 / 4, 1 / 4],
      row_scale = Some [1 / 2, 1 / 2], col_scale = Some [1, 1]\<rparr>"

definition scaler_1234 :: estimator where
  "scaler_1234 = \<lparr>with_mean = True, with_std = True, copy = True, fitted = Some fitted_1234\<rparr>"

definition store_2468 :: world where
  "store_2468 = \<lparr>heap = [[[2, 4], [6, 8]]], warnings = []\<rparr>"

definition array_0 :: ndarray where
  "array_0 = \<lparr>buf = 0, transposed = False\<rparr>"

text \<open>What the proofs below show of a run of lines 270 to 290 in place: its value is the
  spec's, it issues no warning, it allocates nothing, it writes to the buffer of its
  argument only, and it returns a view equal to its argument.\<close>

definition steps_ok ::
  "estimator \<Rightarrow> fitted_attrs \<Rightarrow> ndarray \<Rightarrow> world \<Rightarrow> (error + ndarray) \<times> world \<Rightarrow> bool" where
  "steps_ok self a X w out =
     (map_sum id (view_value (snd out)) (fst out) = inverse_spec self a (view_value w X)
      \<and> warnings (snd out) = warnings w
      \<and> length (heap (snd out)) = length (heap w)
      \<and> (\<forall>i. i \<noteq> buf X \<longrightarrow> heap (snd out) ! i = heap w ! i)
      \<and> (\<forall>r. fst out = Inr r \<longrightarrow> r = X))"

section \<open>Properties\<close>

subsection \<open>Transposition and the scaler keep arrays rectangular\<close>

lemma length_T: "length (T M) = ncols M"
  by (simp add: T_def)

lemma is_2d_row: "is_2d M \<Longrightarrow> r \<in> set M \<Longrightarrow> length r = ncols M"
  by (simp add: is_2d_def list_all_iff)

lemma ncols_T: "0 < ncols M \<Longrightarrow> ncols (T M) = length M"
  by (simp add: T_def ncols_def upt_conv_Cons split: list.splits)

lemma is_2d_T: "is_2d M \<Longrightarrow> is_2d (T M)"
proof -
  assume h: "is_2d M"
  then have c: "0 < ncols M" and n: "M \<noteq> []" by (simp_all add: is_2d_def)
  have 1: "T M \<noteq> []" using c by (simp add: T_def)
  have 2: "ncols (T M) = length M" using c by (rule ncols_T)
  have 3: "list_all (\<lambda>r. length r = length M) (T M)"
    by (simp add: T_def list_all_iff)
  show ?thesis using 1 2 3 n by (simp add: is_2d_def)
qed

lemma T_nth: "j < ncols M \<Longrightarrow> T M ! j = map (\<lambda>r. r ! j) M"
  by (simp add: T_def)

lemma T_T: "is_2d M \<Longrightarrow> T (T M) = M"
proof (rule nth_equalityI)
  assume h: "is_2d M"
  then have c: "0 < ncols M" by (simp add: is_2d_def)
  show "length (T (T M)) = length M" using c by (simp add: length_T ncols_T)
  fix i assume "i < length (T (T M))"
  then have i: "i < length M" using c by (simp add: length_T ncols_T)
  then have li: "length (M ! i) = ncols M" using h by (simp add: is_2d_row)
  have "T (T M) ! i = map (\<lambda>r. r ! i) (T M)"
    using i c by (simp add: T_nth ncols_T)
  also have "\<dots> = map (\<lambda>j. M ! i ! j) [0..<ncols M]"
    using i by (simp add: T_def)
  also have "\<dots> = M ! i" using li by (metis map_nth)
  finally show "T (T M) ! i = M ! i" .
qed

lemma shape_T: "is_2d M \<Longrightarrow> shape (T M) = (ncols M, length M)"
  by (simp add: shape_def length_T ncols_T is_2d_def)

lemma length_scale_row: "length (scale_row ws xs) = length xs"
  by (simp add: scale_row_def Let_def)

lemma length_scale: "length (scale M ws) = length M"
  by (simp add: scale_def)

lemma ncols_scale: "ncols (scale M ws) = ncols M"
  by (cases M) (simp_all add: scale_def ncols_def length_scale_row)

lemma is_2d_scale: "is_2d M \<Longrightarrow> is_2d (scale M ws)"
  by (simp add: is_2d_def ncols_scale) (simp add: scale_def list_all_iff length_scale_row)

subsection \<open>The loop\<close>

lemma while_loop_invariant:
  assumes "P s" and "\<And>s'. P s' \<Longrightarrow> P (loop_body ws r c vb s')"
  shows "P (while_loop ws r c vb mi tol s)"
  using assms
proof (induction ws r c vb mi tol s rule: while_loop.induct)
  case (1 ws r c vb mi tol s)
  show ?case
  proof (cases "loop_guard mi tol s")
    case True
    have "P (loop_body ws r c vb s)" using "1.prems" by blast
    then have "P (while_loop ws r c vb mi tol (loop_body ws r c vb s))"
      using "1.IH" True "1.prems"(2) by blast
    then show ?thesis using True by (subst while_loop.simps) simp
  next
    case False
    then show ?thesis using "1.prems"(1) by (subst while_loop.simps) simp
  qed
qed

lemma row_shaped_init: "is_2d X \<Longrightarrow> row_shaped (length X) (ncols X) (loop_init X)"
  using is_2d_T [of X] by (simp add: row_shaped_def loop_init_def length_T ncols_T is_2d_def)

lemma row_shaped_body:
  assumes "row_shaped r c s"
  shows "row_shaped r c (loop_body ws n m vb s)"
proof -
  let ?A = "Xrow_polish s"
  let ?C = "scale (T ?A) ws"
  have a: "is_2d ?A" and la: "length ?A = c" and na: "ncols ?A = r"
    using assms by (simp_all add: row_shaped_def)
  have pa: "0 < ncols ?A" using a by (simp add: is_2d_def)
  have c: "is_2d ?C" using a by (simp add: is_2d_T is_2d_scale)
  have lc: "length ?C = r" using na by (simp add: length_scale length_T)
  have nc: "ncols ?C = c" using pa la by (simp add: ncols_scale ncols_T)
  have pc: "0 < ncols ?C" using c by (simp add: is_2d_def)
  have r: "is_2d (scale (T ?C) ws)" using c by (simp add: is_2d_T is_2d_scale)
  have lr: "length (scale (T ?C) ws) = c" using nc by (simp add: length_scale length_T)
  have nr: "ncols (scale (T ?C) ws) = r" using pc lc by (simp add: ncols_scale ncols_T)
  show ?thesis using r lr nr by (simp add: row_shaped_def loop_body_def Let_def)
qed

lemma row_shaped_run:
  assumes "is_2d X"
  shows "row_shaped (length X) (ncols X) (run_loop X ws mi tol vb)"
proof -
  have "row_shaped (length X) (ncols X)
          (while_loop ws (length X) (ncols X) vb mi tol (loop_init X))"
    by (rule while_loop_invariant) (simp_all add: row_shaped_init assms row_shaped_body)
  then show ?thesis by (simp add: run_loop_def shape_def)
qed

lemma n_iter_body: "n_iter (loop_body ws r c vb s) = Suc (n_iter s)"
  by (simp add: loop_body_def Let_def)

lemma n_iter_while_loop_ge: "n_iter s \<le> n_iter (while_loop ws r c vb mi tol s)"
proof (induction ws r c vb mi tol s rule: while_loop.induct)
  case (1 ws r c vb mi tol s)
  show ?case
  proof (cases "loop_guard mi tol s")
    case True
    from "1.IH" [OF True] have "Suc (n_iter s) \<le> n_iter (while_loop ws r c vb mi tol (loop_body ws r c vb s))"
      by (simp add: n_iter_body)
    then show ?thesis using True by (subst while_loop.simps) simp
  next
    case False
    then show ?thesis by (subst while_loop.simps) simp
  qed
qed

lemma n_iter_while_loop_le:
  "int (n_iter (while_loop ws r c vb mi tol s)) \<le> max (int (n_iter s)) (mi + 1)"
proof (induction ws r c vb mi tol s rule: while_loop.induct)
  case (1 ws r c vb mi tol s)
  show ?case
  proof (cases "loop_guard mi tol s")
    case True
    then have le: "int (n_iter s) \<le> mi" by (simp add: loop_guard_def)
    from "1.IH" [OF True]
    have "int (n_iter (while_loop ws r c vb mi tol (loop_body ws r c vb s)))
            \<le> max (int (Suc (n_iter s))) (mi + 1)"
      by (simp add: n_iter_body)
    then have "int (n_iter (while_loop ws r c vb mi tol (loop_body ws r c vb s))) \<le> mi + 1"
      using le by simp
    then show ?thesis using True by (subst while_loop.simps) simp
  next
    case False
    then show ?thesis by (subst while_loop.simps) simp
  qed
qed

lemma iterations_le_budget_plus_one:
  "0 \<le> max_iter \<Longrightarrow> int (n_iter (run_loop X ws max_iter tol vb)) \<le> max_iter + 1"
  using n_iter_while_loop_le [of ws "length X" "ncols X" vb max_iter tol "loop_init X"]
  by (simp add: run_loop_def shape_def loop_init_def)

subsection \<open>The loop as a sequence of iterations\<close>

lemma iteration_0: "iteration X ws vb 0 = loop_init X"
  by (simp add: iteration_def)

lemma iteration_Suc:
  "iteration X ws vb (Suc k) = loop_body ws (length X) (ncols X) vb (iteration X ws vb k)"
  by (simp add: iteration_def)

lemma n_iter_iteration: "n_iter (iteration X ws vb k) = k"
  by (induction k) (simp_all add: iteration_0 iteration_Suc loop_init_def n_iter_body)


lemma run_loop_iteration:
  "run_loop X ws mi tol vb = while_loop ws (length X) (ncols X) vb mi tol (iteration X ws vb 0)"
  by (simp add: run_loop_def shape_def iteration_0)

lemma while_loop_continue:
  "loop_guard mi tol (iteration X ws vb k) \<Longrightarrow>
   while_loop ws (length X) (ncols X) vb mi tol (iteration X ws vb k) =
   while_loop ws (length X) (ncols X) vb mi tol (iteration X ws vb (Suc k))"
  by (subst while_loop.simps) (simp add: iteration_Suc)

lemma while_loop_stops_iff:
  "(while_loop ws r c vb mi tol s = s) = (\<not> loop_guard mi tol s)"
proof (cases "loop_guard mi tol s")
  case True
  have "Suc (n_iter s) \<le> n_iter (while_loop ws r c vb mi tol (loop_body ws r c vb s))"
    using n_iter_while_loop_ge [of "loop_body ws r c vb s" ws r c vb mi tol]
    by (simp add: n_iter_body)
  then have "n_iter (while_loop ws r c vb mi tol s) \<noteq> n_iter s"
    using True by (subst while_loop.simps) simp
  then show ?thesis using True by auto
next
  case False
  then show ?thesis by (subst while_loop.simps) simp
qed

text \<open>The end state of the loop is the first iteration state at which the guard fails.\<close>

lemma while_loop_from_iteration:
  "\<exists>j. while_loop ws (length X) (ncols X) vb mi tol (iteration X ws vb k) = iteration X ws vb j
       \<and> k \<le> j \<and> \<not> loop_guard mi tol (iteration X ws vb j)
       \<and> list_all (\<lambda>i. loop_guard mi tol (iteration X ws vb i)) [k..<j]"
proof (induction "nat (mi + 1 - int k)" arbitrary: k rule: less_induct)
  case less
  show ?case
  proof (cases "loop_guard mi tol (iteration X ws vb k)")
    case False
    then have "while_loop ws (length X) (ncols X) vb mi tol (iteration X ws vb k)
                 = iteration X ws vb k"
      by (simp add: while_loop_stops_iff)
    then show ?thesis using False by (intro exI [of _ k]) simp
  next
    case True
    then have "int k \<le> mi" by (simp add: loop_guard_def n_iter_iteration)
    then have "nat (mi + 1 - int (Suc k)) < nat (mi + 1 - int k)" by simp
    from less [OF this] obtain j where
      j: "while_loop ws (length X) (ncols X) vb mi tol (iteration X ws vb (Suc k)) = iteration X ws vb j"
         "Suc k \<le> j" "\<not> loop_guard mi tol (iteration X ws vb j)"
         "list_all (\<lambda>i. loop_guard mi tol (iteration X ws vb i)) [Suc k..<j]"
      by blast
    have "[k..<j] = k # [Suc k..<j]" using j(2) by (simp add: upt_conv_Cons)
    then have "list_all (\<lambda>i. loop_guard mi tol (iteration X ws vb i)) [k..<j]"
      using True j(4) by simp
    then show ?thesis
      using j while_loop_continue [OF True] by (intro exI [of _ j]) simp
  qed
qed

lemma while_loop_reaches:
  "k \<le> j \<Longrightarrow> list_all (\<lambda>i. loop_guard mi tol (iteration X ws vb i)) [k..<j] \<Longrightarrow>
   \<not> loop_guard mi tol (iteration X ws vb j) \<Longrightarrow>
   while_loop ws (length X) (ncols X) vb mi tol (iteration X ws vb k) = iteration X ws vb j"
proof (induction "j - k" arbitrary: k)
  case 0
  then have "k = j" by simp
  then show ?case using "0.prems"(3) by (simp add: while_loop_stops_iff)
next
  case (Suc n)
  then have lt: "k < j" by simp
  then have u: "[k..<j] = k # [Suc k..<j]" by (simp add: upt_conv_Cons)
  have g: "loop_guard mi tol (iteration X ws vb k)" using Suc.prems(2) u by simp
  have r: "list_all (\<lambda>i. loop_guard mi tol (iteration X ws vb i)) [Suc k..<j]"
    using Suc.prems(2) u by simp
  have "n = j - Suc k" using Suc.hyps(2) by simp
  from Suc.hyps(1) [OF this _ r Suc.prems(3)] lt
  have "while_loop ws (length X) (ncols X) vb mi tol (iteration X ws vb (Suc k)) = iteration X ws vb j"
    by simp
  then show ?case using while_loop_continue [OF g] by simp
qed

lemma run_loop_reaches:
  "list_all (\<lambda>i. loop_guard mi tol (iteration X ws vb i)) [0..<j] \<Longrightarrow>
   \<not> loop_guard mi tol (iteration X ws vb j) \<Longrightarrow>
   run_loop X ws mi tol vb = iteration X ws vb j"
  using while_loop_reaches [of 0 j mi tol X ws vb] by (simp add: run_loop_iteration)




subsection \<open>The Frobenius norm of a difference\<close>




subsection \<open>C9: the procedure keeps the shape of its input\<close>

text \<open>
  C9. For every dense input that the validator accepts (a two-dimensional array with
  \<open>r\<close> rows and \<open>c\<close> columns), whatever the options, the iteration budget and the
  tolerance, \<open>two_way_standardize\<close> returns a matrix, and that matrix is again a
  two-dimensional array with \<open>r\<close> rows and \<open>c\<close> columns.
\<close>

theorem two_way_standardize_shape:
  assumes "is_2d M"
  shows "\<exists>R. two_way_standardize (Dense M) with_std' max_iter tol verbose = Inr R
           \<and> is_2d R \<and> shape R = shape M"
proof -
  let ?s = "run_loop M with_std' max_iter tol verbose"
  have rs: "row_shaped (length M) (ncols M) ?s" using assms by (rule row_shaped_run)
  then have a: "is_2d (Xrow_polish ?s)" and la: "length (Xrow_polish ?s) = ncols M"
    and na: "ncols (Xrow_polish ?s) = length M"
    by (simp_all add: row_shaped_def)
  have pa: "0 < ncols (Xrow_polish ?s)" using a by (simp add: is_2d_def)
  have "two_way_standardize (Dense M) with_std' max_iter tol verbose = Inr (T (Xrow_polish ?s))"
    using assms by (simp add: two_way_standardize_def check_array_def)
  moreover have "is_2d (T (Xrow_polish ?s))" using a by (rule is_2d_T)
  moreover have "shape (T (Xrow_polish ?s)) = shape M"
    using pa la na by (simp add: shape_def length_T ncols_T)
  ultimately show ?thesis by blast
qed

text \<open>The spec's example, four rows and two columns.\<close>

theorem two_way_standardize_shape_witness:
  "is_2d [[1, 0], [1, 0], [2, 1], [2, 1]] \<and>
   (\<exists>R. two_way_standardize (Dense [[1, 0], [1, 0], [2, 1], [2, 1]]) True 50 (1 / 10 ^ 6) False
          = Inr R \<and> is_2d R \<and> shape R = (4, 2))"
proof -
  have h: "is_2d [[1, 0], [1, 0], [2, 1], [2, 1]]"
    by (simp add: is_2d_def ncols_def)
  have s: "shape [[1, 0], [1, 0], [2, 1], [2, 1]] = (4, 2)"
    by (simp add: shape_def ncols_def)
  from two_way_standardize_shape [OF h, of True 50 "1 / 10 ^ 6" False]
  have "\<exists>R. two_way_standardize (Dense [[1, 0], [1, 0], [2, 1], [2, 1]]) True 50 (1 / 10 ^ 6) False
          = Inr R \<and> is_2d R \<and> shape R = (4, 2)"
    unfolding s .
  with h show ?thesis by (rule conjI)
qed

subsection \<open>C3: the iteration budget\<close>

text \<open>The guard on line 83 is \<open>n_iter <= max_iter\<close> with \<open>n_iter\<close> counted from zero, so
  the body never runs more than \<open>max_iter + 1\<close> times (\<open>iterations_le_budget_plus_one\<close>),
  and it runs exactly that often when the tolerance is not reached before.\<close>

lemma budget_plus_one_when_not_converged:
  assumes "0 \<le> max_iter"
    and "list_all (\<lambda>i. exceeds (err_norm (iteration X ws vb i)) tol) [0..<nat max_iter + 1]"
  shows "n_iter (run_loop X ws max_iter tol vb) = nat max_iter + 1"
proof -
  have g: "list_all (\<lambda>i. loop_guard max_iter tol (iteration X ws vb i)) [0..<nat max_iter + 1]"
    using assms by (auto simp add: list_all_iff loop_guard_def n_iter_iteration)
  have s: "\<not> loop_guard max_iter tol (iteration X ws vb (nat max_iter + 1))"
    using assms(1) by (simp add: loop_guard_def n_iter_iteration)
  have "run_loop X ws max_iter tol vb = iteration X ws vb (nat max_iter + 1)"
    using g s by (rule run_loop_reaches)
  then show ?thesis by (simp add: n_iter_iteration)
qed

lemmas eval_defs = T_def ncols_def scale_def scale_row_def mean_def std_def var_def
  handle_zeros_in_scale_def msub_def norm_fro_def loop_body_def loop_init_def Let_def upt_rec
  real_sqrt_divide shape_def

lemma body_1234_1:
  "loop_body True 2 2 True (loop_init [[1, 2], [3, 4]]) =
     \<lparr>Xrow_polish = [[0, 0], [0, 0]], Xcol_polish = [[- 1, 1], [- 1, 1]], n_iter = 1,
      err_norm = Some (sqrt 30 / 4), oldXrow = [[0, 0], [0, 0]],
      oldXcol = [[- 1, 1], [- 1, 1]], printed = [(1, sqrt 30 / 4)]\<rparr>"
  by (simp add: eval_defs)

lemma body_1234_2:
  "loop_body True 2 2 True (loop_body True 2 2 True (loop_init [[1, 2], [3, 4]])) =
     \<lparr>Xrow_polish = [[0, 0], [0, 0]], Xcol_polish = [[0, 0], [0, 0]], n_iter = 2,
      err_norm = Some (1 / 4), oldXrow = [[0, 0], [0, 0]],
      oldXcol = [[0, 0], [0, 0]], printed = [(1, sqrt 30 / 4), (2, 1 / 4)]\<rparr>"
  by (simp add: eval_defs)

lemma tol_lt_sqrt30: "(1::real) / 10 ^ 6 < sqrt 30 / 4"
proof -
  have "1 < sqrt 30" by simp
  then have "1 < sqrt 30 * 250000" by linarith
  then show ?thesis by simp
qed

text \<open>
  C3 (the code departs from the claim). With \<open>X = [[1, 2], [3, 4]]\<close>, the defaults and
  \<open>max_iter = 1\<close>, the loop ends after two passes through its body, one more than the
  budget: \<open>n_iter\<close> is 2 and \<open>verbose=True\<close> has printed two lines. The docstring calls
  \<open>max_iter\<close> "the maximum number of iterations".
\<close>

theorem max_iter_one_runs_two_iterations:
  "run_loop [[1, 2], [3, 4]] True 1 (1 / 10 ^ 6) True =
     \<lparr>Xrow_polish = [[0, 0], [0, 0]], Xcol_polish = [[0, 0], [0, 0]], n_iter = 2,
      err_norm = Some (1 / 4), oldXrow = [[0, 0], [0, 0]],
      oldXcol = [[0, 0], [0, 0]], printed = [(1, sqrt 30 / 4), (2, 1 / 4)]\<rparr>"
proof -
  let ?s1 = "loop_body True 2 2 True (loop_init [[1, 2], [3, 4]])"
  let ?s2 = "loop_body True 2 2 True ?s1"
  have g0: "loop_guard 1 (1 / 10 ^ 6) (loop_init [[1, 2], [3, 4]])"
    by (simp add: loop_guard_def loop_init_def exceeds_def)
  have g1: "loop_guard 1 (1 / 10 ^ 6) ?s1"
    using tol_lt_sqrt30 by (simp add: body_1234_1 loop_guard_def exceeds_def)
  have g2: "\<not> loop_guard 1 (1 / 10 ^ 6) ?s2"
    by (simp add: body_1234_2 loop_guard_def)
  have "while_loop True 2 2 True 1 (1 / 10 ^ 6) ?s2 = ?s2"
    using g2 by (subst while_loop.simps) simp
  then have "while_loop True 2 2 True 1 (1 / 10 ^ 6) ?s1 = ?s2"
    using g1 by (subst while_loop.simps) simp
  then have w: "while_loop True 2 2 True 1 (1 / 10 ^ 6) (loop_init [[1, 2], [3, 4]]) = ?s2"
    using g0 by (subst while_loop.simps) simp
  have sh: "shape [[1, 2], [3, 4]] = (2, 2)"
    by (simp add: shape_def ncols_def)
  have "run_loop [[1, 2], [3, 4]] True 1 (1 / 10 ^ 6) True =
          while_loop True 2 2 True 1 (1 / 10 ^ 6) (loop_init [[1, 2], [3, 4]])"
    by (simp only: run_loop_def sh Let_def prod.case)
  also note w
  also note body_1234_2
  finally show ?thesis .
qed

subsection \<open>C4: what one iteration recomputes\<close>

lemma scale_T_nth:
  "i < ncols A \<Longrightarrow> scale (T A) ws ! i = scale_row ws (map (\<lambda>r. r ! i) A)"
  by (simp add: scale_def length_T T_nth)

text \<open>
  C4 as stated fails: the claim standardizes the row-working matrix along its second
  axis and then transposes, while lines 84 and 85 transpose first and standardize the
  transpose. For \<open>[[1, 2], [3, 4]]\<close> the first iteration of the code yields the
  column-working matrix \<open>[[-1, 1], [-1, 1]]\<close>; standardizing the row-working matrix
  \<open>[[1, 3], [2, 4]]\<close> and then transposing would yield \<open>[[-1, -1], [1, 1]]\<close>.
\<close>

theorem standardize_then_transpose_counterexample:
  "Xcol_polish (iteration [[1, 2], [3, 4]] True False (Suc 0))
     \<noteq> T (scale (Xrow_polish (iteration [[1, 2], [3, 4]] True False 0)) True)"
  by (simp add: iteration_def eval_defs)

text \<open>
  C4, amended. In every iteration the column-working matrix is recomputed by transposing
  the row-working matrix and then standardizing the transpose along its second axis: row
  \<open>i\<close> of the new column-working matrix is the standardized column \<open>i\<close> of the
  row-working matrix (in the first iteration, the standardized row \<open>i\<close> of the input).
  The row-working matrix is then recomputed from the new column-working matrix the same
  way, transpose first and standardize second. The value returned by the procedure is the
  transpose of the final row-working matrix.
\<close>

theorem iteration_transposes_then_standardizes:
  "Xcol_polish (iteration X ws vb (Suc k)) = scale (T (Xrow_polish (iteration X ws vb k))) ws
   \<and> Xrow_polish (iteration X ws vb (Suc k)) = scale (T (Xcol_polish (iteration X ws vb (Suc k)))) ws
   \<and> (\<forall>i. i < ncols (Xrow_polish (iteration X ws vb k)) \<longrightarrow>
          Xcol_polish (iteration X ws vb (Suc k)) ! i
            = scale_row ws (map (\<lambda>r. r ! i) (Xrow_polish (iteration X ws vb k))))
   \<and> (is_2d X \<longrightarrow>
          Xcol_polish (iteration X ws vb (Suc 0)) = map (scale_row ws) X
        \<and> two_way_standardize (Dense X) ws max_iter tol vb
            = Inr (T (Xrow_polish (run_loop X ws max_iter tol vb))))"
proof -
  have 1: "Xcol_polish (iteration X ws vb (Suc k)) = scale (T (Xrow_polish (iteration X ws vb k))) ws"
    by (simp add: iteration_Suc loop_body_def Let_def)
  have 2: "Xrow_polish (iteration X ws vb (Suc k))
             = scale (T (Xcol_polish (iteration X ws vb (Suc k)))) ws"
    by (simp add: iteration_Suc loop_body_def Let_def)
  have 3: "\<forall>i. i < ncols (Xrow_polish (iteration X ws vb k)) \<longrightarrow>
          Xcol_polish (iteration X ws vb (Suc k)) ! i
            = scale_row ws (map (\<lambda>r. r ! i) (Xrow_polish (iteration X ws vb k)))"
    by (simp add: 1 scale_T_nth)
  have 4: "is_2d X \<Longrightarrow> Xcol_polish (iteration X ws vb (Suc 0)) = map (scale_row ws) X"
    by (simp add: iteration_Suc iteration_0 loop_body_def Let_def loop_init_def T_T scale_def)
  have 5: "is_2d X \<Longrightarrow> two_way_standardize (Dense X) ws max_iter tol vb
            = Inr (T (Xrow_polish (run_loop X ws max_iter tol vb)))"
    by (simp add: two_way_standardize_def check_array_def)
  show ?thesis using 1 2 3 4 5 by blast
qed

theorem iteration_transposes_then_standardizes_witness:
  "(0::nat) < ncols (Xrow_polish (iteration [[1, 2], [3, 4]] True False 0))
   \<and> is_2d [[1, 2], [3, 4]]
   \<and> Xcol_polish (iteration [[1, 2], [3, 4]] True False (Suc 0)) ! 0
       = scale_row True (map (\<lambda>r. r ! 0) (Xrow_polish (iteration [[1, 2], [3, 4]] True False 0)))
   \<and> Xcol_polish (iteration [[1, 2], [3, 4]] True False (Suc 0)) = map (scale_row True) [[1, 2], [3, 4]]
   \<and> two_way_standardize (Dense [[1, 2], [3, 4]]) True 50 (1 / 10 ^ 6) False
       = Inr (T (Xrow_polish (run_loop [[1, 2], [3, 4]] True 50 (1 / 10 ^ 6) False)))"
proof -
  have a: "(0::nat) < ncols (Xrow_polish (iteration [[1, 2], [3, 4]] True False 0))"
    by (simp add: iteration_def eval_defs)
  have b: "is_2d [[1, 2], [3, 4]]"
    by (simp add: is_2d_def ncols_def)
  show ?thesis
    using a b iteration_transposes_then_standardizes
                [of "[[1, 2], [3, 4]]" True False 0 50 "1 / 10 ^ 6"]
    by blast
qed

subsection \<open>C1: what \<open>transform\<close> runs\<close>

text \<open>On a fitted estimator \<open>transform\<close> is the procedure with its defaults, whatever
  the fitted statistics and whatever the constructor options are.\<close>

lemma transform_fitted:
  "fitted self = Some a \<Longrightarrow> transform self X = two_way_standardize X True 50 (1 / 10 ^ 6) False"
  by (cases X)
     (simp_all add: transform_def check_is_fitted_def check_array_def issparse_def
        two_way_standardize_def)

lemma std_1235_1:
  "iteration [[1, 2], [3, 5]] True False (Suc 0) =
     \<lparr>Xrow_polish = [[0, 0], [0, 0]], Xcol_polish = [[- 1, 1], [- 1, 1]], n_iter = Suc 0,
      err_norm = Some (sqrt 39 / 8 + sqrt 37 / 8), oldXrow = [[0, 0], [0, 0]],
      oldXcol = [[- 1, 1], [- 1, 1]], printed = []\<rparr>"
  by (simp add: iteration_def eval_defs)

lemma std_1235_2:
  "iteration [[1, 2], [3, 5]] True False (Suc (Suc 0)) =
     \<lparr>Xrow_polish = [[0, 0], [0, 0]], Xcol_polish = [[0, 0], [0, 0]], n_iter = Suc (Suc 0),
      err_norm = Some (1 / 4), oldXrow = [[0, 0], [0, 0]], oldXcol = [[0, 0], [0, 0]],
      printed = []\<rparr>"
  by (simp add: iteration_def eval_defs)

lemma std_1235_3:
  "iteration [[1, 2], [3, 5]] True False (Suc (Suc (Suc 0))) =
     \<lparr>Xrow_polish = [[0, 0], [0, 0]], Xcol_polish = [[0, 0], [0, 0]],
      n_iter = Suc (Suc (Suc 0)), err_norm = Some 0, oldXrow = [[0, 0], [0, 0]],
      oldXcol = [[0, 0], [0, 0]], printed = []\<rparr>"
  by (simp add: iteration_def eval_defs)

lemma nostd_1235_1:
  "iteration [[1, 2], [3, 5]] False False (Suc 0) =
     \<lparr>Xrow_polish = [[1 / 4, - (1 / 4)], [- (1 / 4), 1 / 4]],
      Xcol_polish = [[- (1 / 2), 1 / 2], [- 1, 1]], n_iter = Suc 0,
      err_norm = Some (sqrt 155 / 16 + sqrt 73 / (sqrt 2 * 8)),
      oldXrow = [[1 / 4, - (1 / 4)], [- (1 / 4), 1 / 4]],
      oldXcol = [[- (1 / 2), 1 / 2], [- 1, 1]], printed = []\<rparr>"
  by (simp add: iteration_def eval_defs)

lemma nostd_1235_2:
  "iteration [[1, 2], [3, 5]] False False (Suc (Suc 0)) =
     \<lparr>Xrow_polish = [[1 / 4, - (1 / 4)], [- (1 / 4), 1 / 4]],
      Xcol_polish = [[1 / 4, - (1 / 4)], [- (1 / 4), 1 / 4]],
      n_iter = Suc (Suc 0), err_norm = Some (3 / 16),
      oldXrow = [[1 / 4, - (1 / 4)], [- (1 / 4), 1 / 4]],
      oldXcol = [[1 / 4, - (1 / 4)], [- (1 / 4), 1 / 4]], printed = []\<rparr>"
  by (simp add: iteration_def eval_defs)

lemma nostd_1235_3:
  "iteration [[1, 2], [3, 5]] False False (Suc (Suc (Suc 0))) =
     \<lparr>Xrow_polish = [[1 / 4, - (1 / 4)], [- (1 / 4), 1 / 4]],
      Xcol_polish = [[1 / 4, - (1 / 4)], [- (1 / 4), 1 / 4]],
      n_iter = Suc (Suc (Suc 0)), err_norm = Some 0,
      oldXrow = [[1 / 4, - (1 / 4)], [- (1 / 4), 1 / 4]],
      oldXcol = [[1 / 4, - (1 / 4)], [- (1 / 4), 1 / 4]], printed = []\<rparr>"
  by (simp add: iteration_def eval_defs)

lemma tol_lt_std: "(1::real) / 10 ^ 6 < sqrt 39 / 8 + sqrt 37 / 8"
proof -
  have "1 < sqrt 39" and "0 \<le> sqrt 37" by simp_all
  then have "1 < sqrt 39 * 125000 + sqrt 37 * 125000" by linarith
  then show ?thesis by simp
qed

lemma tol_lt_nostd: "(1::real) / 10 ^ 6 < sqrt 155 / 16 + sqrt 73 / (sqrt 2 * 8)"
proof -
  have "1 < sqrt 155" by simp
  then have "1 < sqrt 155 * 62500" by linarith
  then have a: "(1::real) / 10 ^ 6 < sqrt 155 / 16" by simp
  have "0 \<le> sqrt 73 / (sqrt 2 * 8)" by simp
  then show ?thesis using a by linarith
qed

lemma upt_3: "[0..<Suc (Suc (Suc 0))] = [0, Suc 0, Suc (Suc 0)]"
  by (simp add: upt_rec)

lemma run_std_1235:
  "run_loop [[1, 2], [3, 5]] True 50 (1 / 10 ^ 6) False
     = iteration [[1, 2], [3, 5]] True False (Suc (Suc (Suc 0)))"
proof (rule run_loop_reaches)
  show "list_all (\<lambda>i. loop_guard 50 (1 / 10 ^ 6) (iteration [[1, 2], [3, 5]] True False i))
          [0..<Suc (Suc (Suc 0))]"
    using tol_lt_std
    by (simp add: upt_3 loop_guard_def exceeds_def std_1235_1 std_1235_2)
       (simp add: iteration_0 loop_init_def)
  show "\<not> loop_guard 50 (1 / 10 ^ 6) (iteration [[1, 2], [3, 5]] True False (Suc (Suc (Suc 0))))"
    by (simp add: loop_guard_def exceeds_def std_1235_3)
qed

lemma run_nostd_1235:
  "run_loop [[1, 2], [3, 5]] False 50 (1 / 10 ^ 6) False
     = iteration [[1, 2], [3, 5]] False False (Suc (Suc (Suc 0)))"
proof (rule run_loop_reaches)
  show "list_all (\<lambda>i. loop_guard 50 (1 / 10 ^ 6) (iteration [[1, 2], [3, 5]] False False i))
          [0..<Suc (Suc (Suc 0))]"
    using tol_lt_nostd
    by (simp add: upt_3 loop_guard_def exceeds_def nostd_1235_1 nostd_1235_2)
       (simp add: iteration_0 loop_init_def)
  show "\<not> loop_guard 50 (1 / 10 ^ 6) (iteration [[1, 2], [3, 5]] False False (Suc (Suc (Suc 0))))"
    by (simp add: loop_guard_def exceeds_def nostd_1235_3)
qed

lemma is_2d_1235: "is_2d [[1, 2], [3, 5]]"
  by (simp add: is_2d_def ncols_def)

lemma fit_nostd_1235:
  "fit (TwoWayStandardScaler True True False) (Dense [[1, 2], [3, 5]]) =
     Inr \<lparr>with_mean = True, with_std = False, copy = True,
          fitted = Some \<lparr>col_mean = [2, 7 / 2], n_rows_seen = 2, col_var = None,
                         row_mean = [3 / 2, 4], n_cols_seen = 2, row_var = None,
                         row_scale = None, col_scale = None\<rparr>\<rparr>"
  by (simp add: fit_def TwoWayStandardScaler_def check_array_def is_2d_def
        incremental_mean_and_var_def eval_defs)

text \<open>
  C1 (the code departs from the claim). An estimator built with \<open>with_std=False\<close> and
  fitted on \<open>[[1, 2], [3, 5]]\<close> transforms that matrix to \<open>[[0, 0], [0, 0]]\<close>, which is
  the procedure's result with variance scaling on; with the constructor's option
  (\<open>with_std=False\<close>) the procedure returns \<open>[[1/4, -1/4], [-1/4, 1/4]]\<close>. The call on
  line 247 does not pass \<open>self.with_std\<close>, which \<open>fit\<close> and \<open>inverse_transform\<close> both
  read and which the class docstring describes as deciding the scaling.
\<close>

theorem transform_scales_when_with_std_is_off:
  "fit (TwoWayStandardScaler True True False) (Dense [[1, 2], [3, 5]]) =
     Inr \<lparr>with_mean = True, with_std = False, copy = True,
          fitted = Some \<lparr>col_mean = [2, 7 / 2], n_rows_seen = 2, col_var = None,
                         row_mean = [3 / 2, 4], n_cols_seen = 2, row_var = None,
                         row_scale = None, col_scale = None\<rparr>\<rparr>
   \<and> transform
        \<lparr>with_mean = True, with_std = False, copy = True,
         fitted = Some \<lparr>col_mean = [2, 7 / 2], n_rows_seen = 2, col_var = None,
                        row_mean = [3 / 2, 4], n_cols_seen = 2, row_var = None,
                        row_scale = None, col_scale = None\<rparr>\<rparr>
        (Dense [[1, 2], [3, 5]])
       = Inr [[0, 0], [0, 0]]
   \<and> two_way_standardize (Dense [[1, 2], [3, 5]]) True 50 (1 / 10 ^ 6) False
       = Inr [[0, 0], [0, 0]]
   \<and> two_way_standardize (Dense [[1, 2], [3, 5]]) False 50 (1 / 10 ^ 6) False
       = Inr [[1 / 4, - (1 / 4)], [- (1 / 4), 1 / 4]]"
proof -
  have xt: "Xrow_polish (run_loop [[1, 2], [3, 5]] True 50 (1 / 10 ^ 6) False) = [[0, 0], [0, 0]]"
    by (simp only: run_std_1235 std_1235_3) simp
  have xf: "Xrow_polish (run_loop [[1, 2], [3, 5]] False 50 (1 / 10 ^ 6) False)
              = [[1 / 4, - (1 / 4)], [- (1 / 4), 1 / 4]]"
    by (simp only: run_nostd_1235 nostd_1235_3) simp
  have "two_way_standardize (Dense [[1, 2], [3, 5]]) True 50 (1 / 10 ^ 6) False
          = Inr (T (Xrow_polish (run_loop [[1, 2], [3, 5]] True 50 (1 / 10 ^ 6) False)))"
    using is_2d_1235 by (simp add: two_way_standardize_def check_array_def)
  also have "\<dots> = Inr (T [[0, 0], [0, 0]])" by (simp only: xt)
  also have "\<dots> = Inr [[0, 0], [0, 0]]" by (simp add: T_def ncols_def upt_rec)
  finally have t: "two_way_standardize (Dense [[1, 2], [3, 5]]) True 50 (1 / 10 ^ 6) False
             = Inr [[0, 0], [0, 0]]" .
  have "two_way_standardize (Dense [[1, 2], [3, 5]]) False 50 (1 / 10 ^ 6) False
          = Inr (T (Xrow_polish (run_loop [[1, 2], [3, 5]] False 50 (1 / 10 ^ 6) False)))"
    using is_2d_1235 by (simp add: two_way_standardize_def check_array_def)
  also have "\<dots> = Inr (T [[1 / 4, - (1 / 4)], [- (1 / 4), 1 / 4]])" by (simp only: xf)
  also have "\<dots> = Inr [[1 / 4, - (1 / 4)], [- (1 / 4), 1 / 4]]"
    by (simp add: T_def ncols_def upt_rec)
  finally have f: "two_way_standardize (Dense [[1, 2], [3, 5]]) False 50 (1 / 10 ^ 6) False
             = Inr [[1 / 4, - (1 / 4)], [- (1 / 4), 1 / 4]]" .
  show ?thesis
    using t f fit_nostd_1235 by (simp add: transform_fitted)
qed

subsection \<open>C5: the convergence error and the early stop\<close>






subsection \<open>Views and in-place steps\<close>

lemma ncols_map: "M \<noteq> [] \<Longrightarrow> ncols (map g M) = length (g (hd M))"
  by (cases M) (simp_all add: ncols_def)

lemma ncols_hd: "M \<noteq> [] \<Longrightarrow> ncols M = length (hd M)"
  by (cases M) (simp_all add: ncols_def)

lemma is_2d_broadcast:
  assumes "is_2d M" and "broadcast f M v = Inr M'"
  shows "is_2d M'"
proof (cases "length v = ncols M")
  case True
  then have m: "M' = map (\<lambda>r. map2 f r v) M" using assms(2) by (simp add: broadcast_def)
  have ne: "M \<noteq> []" and pos: "0 < ncols M" and rows: "\<forall>r\<in>set M. length r = ncols M"
    using assms(1) by (simp_all add: is_2d_def list_all_iff)
  have "hd M \<in> set M" using ne by simp
  then have "length (hd M) = ncols M" using rows by blast
  then have nc: "ncols M' = ncols M" using ne True by (simp add: m ncols_map)
  have "\<forall>r\<in>set M'. length r = ncols M" using rows True by (auto simp add: m)
  then show ?thesis using ne pos nc by (simp add: is_2d_def list_all_iff m)
next
  case False
  then have m: "M' = map (map (\<lambda>x. f x (hd v))) M"
    using assms(2) by (simp add: broadcast_def split: if_splits)
  have ne: "M \<noteq> []" and pos: "0 < ncols M" and rows: "\<forall>r\<in>set M. length r = ncols M"
    using assms(1) by (simp_all add: is_2d_def list_all_iff)
  have "ncols M' = length (hd M)" using ne by (simp add: m ncols_map)
  then have nc: "ncols M' = ncols M" using ne by (simp add: ncols_hd)
  have "\<forall>r\<in>set M'. length r = ncols M" using rows by (auto simp add: m)
  then show ?thesis using ne pos nc by (simp add: is_2d_def list_all_iff m)
qed

lemma is_2d_apply_if:
  "is_2d M \<Longrightarrow> apply_if b f M opnd = Inr M' \<Longrightarrow> is_2d M'"
  by (auto simp add: apply_if_def is_2d_broadcast split: if_splits option.splits)

lemma valid_view_T: "valid_view w (ndarray_T X) = valid_view w X"
  by (simp add: valid_view_def ndarray_T_def)

lemma ndarray_T_T: "ndarray_T (ndarray_T X) = X"
  by (simp add: ndarray_T_def)

lemma buf_T: "buf (ndarray_T X) = buf X"
  by (simp add: ndarray_T_def)

lemma view_value_T: "valid_view w X \<Longrightarrow> view_value w (ndarray_T X) = T (view_value w X)"
  by (simp add: valid_view_def view_value_def ndarray_T_def T_T)

lemma is_2d_view_value: "valid_view w X \<Longrightarrow> is_2d (view_value w X)"
  by (simp add: valid_view_def view_value_def is_2d_T)

lemma view_value_store:
  "valid_view w X \<Longrightarrow> is_2d M \<Longrightarrow> view_value (view_store w X M) X = M"
  by (simp add: valid_view_def view_value_def view_store_def T_T)

lemma valid_view_store:
  "valid_view w X \<Longrightarrow> is_2d M \<Longrightarrow> valid_view (view_store w X M) X"
  by (simp add: valid_view_def view_store_def is_2d_T)

lemma view_store_frame:
  "warnings (view_store w X M) = warnings w \<and>
   length (heap (view_store w X M)) = length (heap w) \<and>
   (\<forall>i. i \<noteq> buf X \<longrightarrow> heap (view_store w X M) ! i = heap w ! i)"
  by (simp add: view_store_def)

text \<open>One optional in-place step against the same step on values.\<close>

lemma opt_inplace_cases:
  assumes "valid_view w X"
  obtains
    (raises) e where
      "(if b then inplace f X opnd w else Inr w) = Inl e"
      "apply_if b f (view_value w X) opnd = Inl e"
  | (returns) w' M where
      "(if b then inplace f X opnd w else Inr w) = Inr w'"
      "apply_if b f (view_value w X) opnd = Inr M"
      "view_value w' X = M" "valid_view w' X" "warnings w' = warnings w"
      "length (heap w') = length (heap w)"
      "\<forall>i. i \<noteq> buf X \<longrightarrow> heap w' ! i = heap w ! i"
proof (cases "apply_if b f (view_value w X) opnd")
  case (Inl e)
  then have "(if b then inplace f X opnd w else Inr w) = Inl e"
    by (auto simp add: apply_if_def inplace_def split: if_splits option.splits)
  then show ?thesis using Inl raises by blast
next
  case (Inr M)
  show ?thesis
  proof (cases b)
    case False
    then have M: "M = view_value w X" using Inr by (simp add: apply_if_def)
    show ?thesis
    proof (rule returns [of w M])
      show "(if b then inplace f X opnd w else Inr w) = Inr w" using False by simp
      show "apply_if b f (view_value w X) opnd = Inr M" by (rule Inr)
      show "view_value w X = M" using M by simp
      show "valid_view w X" by (rule assms)
    qed simp_all
  next
    case True
    then obtain v where v: "opnd = Some v" and bc: "broadcast f (view_value w X) v = Inr M"
      using Inr by (auto simp add: apply_if_def split: option.splits)
    have m: "is_2d M" using is_2d_broadcast [OF is_2d_view_value [OF assms] bc] .
    show ?thesis
    proof (rule returns [of "view_store w X M" M])
      show "(if b then inplace f X opnd w else Inr w) = Inr (view_store w X M)"
        using True v bc by (simp add: inplace_def)
      show "apply_if b f (view_value w X) opnd = Inr M" by (rule Inr)
      show "view_value (view_store w X M) X = M" using assms m by (rule view_value_store)
      show "valid_view (view_store w X M) X" using assms m by (rule valid_view_store)
    qed (simp_all add: view_store_frame)
  qed
qed

lemma inverse_steps_inplace:
  assumes v: "valid_view w X"
  shows "steps_ok self a X w (inverse_steps self a X False w)"
proof -
  let ?X2 = "ndarray_T X"
  have v2: "valid_view w ?X2" using v by (simp add: valid_view_T)
  have val2: "view_value w ?X2 = T (view_value w X)" using v by (rule view_value_T)
  show ?thesis
  using v2
  proof (cases rule: opt_inplace_cases [where b = "with_std self" and f = "(*)" and opnd = "row_scale a"])
    case (raises e)
    then show ?thesis
      by (simp add: steps_ok_def inverse_steps_def inverse_spec_def Let_def val2)
  next
    case r1: (returns w2 A)
    show ?thesis
    using r1(4)
  proof (cases rule: opt_inplace_cases [where b = "with_mean self" and f = "(+)" and opnd = "Some (row_mean a)"])
      case (raises e)
      then show ?thesis using r1
        by (simp add: steps_ok_def inverse_steps_def inverse_spec_def Let_def val2 buf_T)
    next
      case r2: (returns w3 B)
      have v3: "valid_view w3 X" using r2(4) by (simp add: valid_view_T)
      have "view_value w3 (ndarray_T ?X2) = T (view_value w3 ?X2)"
        using r2(4) by (rule view_value_T)
      then have val3: "view_value w3 X = T B" using r2(3) by (simp add: ndarray_T_T)
      show ?thesis
      using v3
  proof (cases rule: opt_inplace_cases [where b = "with_std self" and f = "(*)" and opnd = "col_scale a"])
        case (raises e)
        then show ?thesis using r1 r2
          by (simp add: steps_ok_def inverse_steps_def inverse_spec_def Let_def val2 val3
                buf_T ndarray_T_T)
      next
        case r3: (returns w4 C)
        show ?thesis
        using r3(4)
  proof (cases rule: opt_inplace_cases [where b = "with_mean self" and f = "(+)" and opnd = "Some (col_mean a)"])
          case (raises e)
          then show ?thesis using r1 r2 r3
            by (simp add: steps_ok_def inverse_steps_def inverse_spec_def Let_def val2 val3
                  buf_T ndarray_T_T)
        next
          case r4: (returns w5 D)
          then show ?thesis using r1 r2 r3
            by (simp add: steps_ok_def inverse_steps_def inverse_spec_def Let_def val2 val3
                  buf_T ndarray_T_T)
        qed
      qed
    qed
  qed
qed

subsection \<open>\<open>inverse_transform\<close> on a dense argument\<close>

lemma inverse_steps_copy:
  "inverse_steps self a X True w =
     inverse_steps self a \<lparr>buf = length (heap w), transposed = False\<rparr> False
       (w\<lparr>heap := heap w @ [view_value w X]\<rparr>)"
  by (simp add: inverse_steps_def ndarray_copy_def new_array_def)

lemma valid_view_new:
  "is_2d M \<Longrightarrow> valid_view (w\<lparr>heap := heap w @ [M]\<rparr>) \<lparr>buf = length (heap w), transposed = False\<rparr>"
  by (simp add: valid_view_def)

lemma view_value_new:
  "view_value (w\<lparr>heap := heap w @ [M]\<rparr>) \<lparr>buf = length (heap w), transposed = False\<rparr> = M"
  by (simp add: view_value_def)

text \<open>A run on a fresh array leaves every buffer that existed before as it was.\<close>

lemma steps_on_new_array:
  fixes w :: world and M :: matrix and self :: estimator and a :: fitted_attrs
  assumes "is_2d M"
  defines "X1 \<equiv> \<lparr>buf = length (heap w), transposed = False\<rparr>"
  defines "out \<equiv> inverse_steps self a X1 False (w\<lparr>heap := heap w @ [M]\<rparr>)"
  shows "map_sum id (view_value (snd out)) (fst out) = inverse_spec self a M"
    and "warnings (snd out) = warnings w"
    and "take (length (heap w)) (heap (snd out)) = heap w"
    and "\<forall>r. fst out = Inr r \<longrightarrow> r = X1"
proof -
  let ?w1 = "w\<lparr>heap := heap w @ [M]\<rparr>"
  have v: "valid_view ?w1 X1" unfolding X1_def using assms(1) by (rule valid_view_new)
  have ok: "steps_ok self a X1 ?w1 out"
    unfolding out_def using v by (rule inverse_steps_inplace)
  have val: "view_value ?w1 X1 = M" unfolding X1_def by (rule view_value_new)
  show "map_sum id (view_value (snd out)) (fst out) = inverse_spec self a M"
    using ok val by (simp add: steps_ok_def)
  show "warnings (snd out) = warnings w" using ok by (simp add: steps_ok_def)
  show "\<forall>r. fst out = Inr r \<longrightarrow> r = X1" using ok by (simp add: steps_ok_def)
  have len: "length (heap (snd out)) = Suc (length (heap w))"
    using ok by (simp add: steps_ok_def)
  have fr: "\<forall>i. i \<noteq> length (heap w) \<longrightarrow> heap (snd out) ! i = (heap w @ [M]) ! i"
    using ok by (simp add: steps_ok_def X1_def)
  show "take (length (heap w)) (heap (snd out)) = heap w"
  proof (rule nth_equalityI)
    show "length (take (length (heap w)) (heap (snd out))) = length (heap w)"
      using len by simp
    fix i assume "i < length (take (length (heap w)) (heap (snd out)))"
    then have i: "i < length (heap w)" by simp
    then have "heap (snd out) ! i = (heap w @ [M]) ! i" using fr by simp
    then show "take (length (heap w)) (heap (snd out)) ! i = heap w ! i"
      using i by (simp add: nth_append)
  qed
qed

lemma view_value_prefix:
  "valid_view w X \<Longrightarrow> take (length (heap w)) (heap w') = heap w \<Longrightarrow>
   view_value w' X = view_value w X"
proof -
  assume v: "valid_view w X" and t: "take (length (heap w)) (heap w') = heap w"
  have "buf X < length (heap w)" using v by (simp add: valid_view_def)
  then have "heap w' ! buf X = heap w ! buf X"
    using t by (metis nth_take)
  then show ?thesis by (simp add: view_value_def)
qed

lemma valid_view_warn: "valid_view (warn msg w) X = valid_view w X"
  by (simp add: valid_view_def warn_def)

lemma view_value_warn: "view_value (warn msg w) X = view_value w X"
  by (simp add: view_value_def warn_def)

lemma heap_warn: "heap (warn msg w) = heap w"
  by (simp add: warn_def)

lemma warnings_warn: "warnings (warn msg w) = warnings w @ [msg]"
  by (simp add: warn_def)

lemma inverse_transform_Array:
  "fitted self = Some a \<Longrightarrow>
   inverse_transform self (Array X0) c w =
     inverse_steps self a X0 c (warn ''Reversing two way transformation is not accurate.'' w)"
  by (simp add: inverse_transform_def check_is_fitted_def)

lemma inverse_transform_Nested:
  "fitted self = Some a \<Longrightarrow>
   inverse_transform self (Nested M) c w =
     inverse_steps self a \<lparr>buf = length (heap w), transposed = False\<rparr> c
       ((warn ''Reversing two way transformation is not accurate.'' w)
          \<lparr>heap := heap w @ [M]\<rparr>)"
  by (simp add: inverse_transform_def check_is_fitted_def new_array_def heap_warn)

text \<open>Every run of \<open>inverse_transform\<close> on a fitted estimator and a dense argument: its
  value and its warnings.\<close>

lemma inverse_transform_dense:
  fixes w :: world and X :: pyobj and self :: estimator and c :: bool
  assumes f: "fitted self = Some a" and d: "is_dense w X"
  defines "out \<equiv> inverse_transform self X c w"
  shows "map_sum id (view_value (snd out)) (fst out) = inverse_spec self a (obj_value w X)
         \<and> warnings (snd out) = warnings w @ [''Reversing two way transformation is not accurate.'']"
proof -
  let ?msg = "''Reversing two way transformation is not accurate.''"
  let ?ww = "warn ?msg w"
  show ?thesis
  proof (cases X)
    case SparseMatrix
    then show ?thesis using d by (simp add: is_dense_def)
  next
    case (Array X0)
    then have v: "valid_view ?ww X0" using d by (simp add: is_dense_def valid_view_warn)
    have o: "out = inverse_steps self a X0 c ?ww"
      unfolding out_def Array using f by (rule inverse_transform_Array)
    have ov: "obj_value w X = view_value ?ww X0"
      by (simp add: Array obj_value_def view_value_warn)
    show ?thesis
    proof (cases c)
      case False
      have "steps_ok self a X0 ?ww out"
        using inverse_steps_inplace [OF v, of self a] False by (simp add: o)
      then show ?thesis by (simp add: steps_ok_def ov warnings_warn)
    next
      case True
      have o': "out = inverse_steps self a \<lparr>buf = length (heap ?ww), transposed = False\<rparr> False
                 (?ww\<lparr>heap := heap ?ww @ [view_value ?ww X0]\<rparr>)"
        using True by (simp add: o inverse_steps_copy)
      have m: "is_2d (view_value ?ww X0)" using v by (rule is_2d_view_value)
      show ?thesis
        using steps_on_new_array(1,2) [OF m, of self a ?ww]
        by (simp add: o' ov warnings_warn)
    qed
  next
    case (Nested M)
    then have m: "is_2d M" using d by (simp add: is_dense_def)
    have o: "out = inverse_steps self a \<lparr>buf = length (heap ?ww), transposed = False\<rparr> c
               (?ww\<lparr>heap := heap ?ww @ [M]\<rparr>)"
      unfolding out_def Nested using f
      by (simp add: inverse_transform_Nested heap_warn)
    have ov: "obj_value w X = M" by (simp add: Nested obj_value_def)
    let ?X1 = "\<lparr>buf = length (heap ?ww), transposed = False\<rparr>"
    let ?w1 = "?ww\<lparr>heap := heap ?ww @ [M]\<rparr>"
    show ?thesis
    proof (cases c)
      case False
      show ?thesis
        using steps_on_new_array(1,2) [OF m, of self a ?ww]
        by (simp add: o False ov warnings_warn)
    next
      case True
      have v1: "valid_view ?w1 ?X1" using m by (rule valid_view_new)
      have val1: "view_value ?w1 ?X1 = M" by (rule view_value_new)
      have o': "out = inverse_steps self a \<lparr>buf = length (heap ?w1), transposed = False\<rparr> False
                 (?w1\<lparr>heap := heap ?w1 @ [view_value ?w1 ?X1]\<rparr>)"
        using True by (simp add: o inverse_steps_copy)
      have m1: "is_2d (view_value ?w1 ?X1)" using m val1 by simp
      show ?thesis
        using steps_on_new_array(1,2) [OF m1, of self a ?w1]
        by (simp add: o' ov val1 warnings_warn)
    qed
  qed
qed

subsection \<open>The spec's sequence, entry by entry\<close>

lemma broadcast_rows:
  assumes "is_2d M" and "length v = ncols M"
  shows "broadcast f M v =
           Inr (map (\<lambda>i. map (\<lambda>j. f (M ! i ! j) (v ! j)) [0..<ncols M]) [0..<length M])"
proof -
  have rows: "\<forall>r\<in>set M. length r = ncols M"
    using assms(1) by (simp add: is_2d_def list_all_iff)
  have "map (\<lambda>r. map2 f r v) M
          = map (\<lambda>i. map (\<lambda>j. f (M ! i ! j) (v ! j)) [0..<ncols M]) [0..<length M]"
  proof (rule nth_equalityI)
    show "length (map (\<lambda>r. map2 f r v) M)
            = length (map (\<lambda>i. map (\<lambda>j. f (M ! i ! j) (v ! j)) [0..<ncols M]) [0..<length M])"
      by simp
    fix i assume "i < length (map (\<lambda>r. map2 f r v) M)"
    then have i: "i < length M" by simp
    then have l: "length (M ! i) = ncols M" using rows by simp
    have "map2 f (M ! i) v = map (\<lambda>j. f (M ! i ! j) (v ! j)) [0..<ncols M]"
      using l assms(2) by (intro nth_equalityI) simp_all
    then show "map (\<lambda>r. map2 f r v) M ! i
                 = map (\<lambda>i. map (\<lambda>j. f (M ! i ! j) (v ! j)) [0..<ncols M]) [0..<length M] ! i"
      using i by simp
  qed
  then show ?thesis using assms(2) by (simp add: broadcast_def)
qed

lemma length_table: "length (table r c g) = r"
  by (simp add: table_def)

lemma ncols_table: "0 < r \<Longrightarrow> ncols (table r c g) = c"
  by (simp add: table_def ncols_def upt_conv_Cons split: list.splits)

lemma is_2d_table: "0 < r \<Longrightarrow> 0 < c \<Longrightarrow> is_2d (table r c g)"
  using ncols_table [of r c g] by (auto simp add: is_2d_def list_all_iff) (auto simp add: table_def)

lemma table_nth: "i < r \<Longrightarrow> j < c \<Longrightarrow> table r c g ! i ! j = g i j"
  by (simp add: table_def)

lemma table_of_matrix: "is_2d M \<Longrightarrow> M = table (length M) (ncols M) (\<lambda>i j. M ! i ! j)"
proof -
  assume h: "is_2d M"
  then have rows: "\<forall>r\<in>set M. length r = ncols M" by (simp add: is_2d_def list_all_iff)
  show ?thesis
    unfolding table_def
  proof (rule nth_equalityI)
    show "length M = length (map (\<lambda>i. map ((!) (M ! i)) [0..<ncols M]) [0..<length M])" by simp
    fix i assume i: "i < length M"
    then have "length (M ! i) = ncols M" using rows by simp
    then have "map ((!) (M ! i)) [0..<ncols M] = M ! i" by (metis map_nth)
    then show "M ! i = map (\<lambda>i. map ((!) (M ! i)) [0..<ncols M]) [0..<length M] ! i"
      using i by simp
  qed
qed

lemma T_table: "0 < r \<Longrightarrow> T (table r c g) = table c r (\<lambda>j i. g i j)"
  by (simp add: T_def ncols_table) (simp add: table_def)

lemma broadcast_table:
  "0 < r \<Longrightarrow> 0 < c \<Longrightarrow> length v = c \<Longrightarrow>
   broadcast f (table r c g) v = Inr (table r c (\<lambda>i j. f (g i j) (v ! j)))"
  using broadcast_rows [OF is_2d_table [of r c g], of v f]
  by (simp add: ncols_table length_table) (simp add: table_def)

lemma apply_if_table:
  "0 < r \<Longrightarrow> 0 < c \<Longrightarrow> length v = c \<Longrightarrow>
   apply_if b f (table r c g) (Some v)
     = Inr (table r c (\<lambda>i j. if b then f (g i j) (v ! j) else g i j))"
  by (simp add: apply_if_def broadcast_table)

text \<open>The spec's sequence, entry by entry, when the fitted statistics have the shape of the
  argument: entry \<open>(i, j)\<close> is scaled and shifted by the statistics of row \<open>i\<close>, then by
  those of column \<open>j\<close>.\<close>

lemma inverse_spec_entries:
  assumes "is_2d X"
    and "row_scale a = Some rs" and "col_scale a = Some cs"
    and "length rs = length X" and "length (row_mean a) = length X"
    and "length cs = ncols X" and "length (col_mean a) = ncols X"
  shows "inverse_spec self a X =
           Inr (table (length X) (ncols X)
                  (\<lambda>i j. (X ! i ! j * (if with_std self then rs ! i else 1)
                            + (if with_mean self then row_mean a ! i else 0))
                           * (if with_std self then cs ! j else 1)
                          + (if with_mean self then col_mean a ! j else 0)))"
proof -
  have r: "0 < length X" and c: "0 < ncols X" using assms(1) by (simp_all add: is_2d_def)
  have X: "X = table (length X) (ncols X) (\<lambda>i j. X ! i ! j)"
    using assms(1) by (rule table_of_matrix)
  have "inverse_spec self a (table (length X) (ncols X) (\<lambda>i j. X ! i ! j)) =
           Inr (table (length X) (ncols X)
                  (\<lambda>i j. (X ! i ! j * (if with_std self then rs ! i else 1)
                            + (if with_mean self then row_mean a ! i else 0))
                           * (if with_std self then cs ! j else 1)
                          + (if with_mean self then col_mean a ! j else 0)))"
    using r c assms(2-7)
    by (cases "with_std self"; cases "with_mean self")
       (simp_all add: inverse_spec_def T_table apply_if_table)
  then show ?thesis using X by simp
qed

subsection \<open>The example estimator and store\<close>

lemmas store_defs = inverse_transform_def check_is_fitted_def inverse_steps_def inplace_def
  broadcast_def view_value_def view_store_def ndarray_T_def ndarray_copy_def new_array_def
  warn_def scaler_1234_def fitted_1234_def store_2468_def array_0_def T_def ncols_def upt_rec
  Let_def

lemma fit_1234:
  "fit (TwoWayStandardScaler True True True) (Dense [[1, 2], [3, 4]]) = Inr scaler_1234"
  by (simp add: fit_def TwoWayStandardScaler_def check_array_def is_2d_def
        incremental_mean_and_var_def eval_defs scaler_1234_def fitted_1234_def)

lemma fitted_scaler_1234: "fitted scaler_1234 = Some fitted_1234"
  by (simp add: scaler_1234_def)

lemma valid_array_0: "valid_view store_2468 array_0"
  by (simp add: valid_view_def store_2468_def array_0_def is_2d_def ncols_def)

lemma dense_array_0: "is_dense store_2468 (Array array_0)"
  by (simp add: is_dense_def valid_array_0)

lemma inverse_spec_2468:
  "inverse_spec scaler_1234 fitted_1234 [[2, 4], [6, 8]] = Inr [[9 / 2, 13 / 2], [17 / 2, 21 / 2]]"
  by (simp add: inverse_spec_def apply_if_def store_defs)

lemma inverse_in_place_2468:
  "inverse_transform scaler_1234 (Array array_0) False store_2468 =
     (Inr array_0,
      \<lparr>heap = [[[9 / 2, 13 / 2], [17 / 2, 21 / 2]]],
       warnings = [''Reversing two way transformation is not accurate.'']\<rparr>)"
  by (simp add: store_defs)

lemma inverse_copy_2468:
  "inverse_transform scaler_1234 (Array array_0) True store_2468 =
     (Inr \<lparr>buf = 1, transposed = False\<rparr>,
      \<lparr>heap = [[[2, 4], [6, 8]], [[9 / 2, 13 / 2], [17 / 2, 21 / 2]]],
       warnings = [''Reversing two way transformation is not accurate.'']\<rparr>)"
  by (simp add: store_defs)

subsection \<open>C6: the not-fitted guard\<close>

text \<open>
  C6. On an estimator on which \<open>fit\<close> has not succeeded, \<open>transform\<close> and
  \<open>inverse_transform\<close> raise \<open>NotFittedError\<close> for every argument, and
  \<open>inverse_transform\<close> leaves the store and the warnings as they were: no array is
  written and no warning is issued.
\<close>

theorem not_fitted_guard:
  "fitted self = None \<Longrightarrow>
   transform self X = Inl NotFittedError \<and>
   inverse_transform self Y copy' w = (Inl NotFittedError, w)"
  by (simp add: transform_def inverse_transform_def check_is_fitted_def)

theorem not_fitted_guard_witness:
  "fitted (TwoWayStandardScaler True True True) = None
   \<and> transform (TwoWayStandardScaler True True True) (Dense [[1, 2], [3, 4]]) = Inl NotFittedError
   \<and> inverse_transform (TwoWayStandardScaler True True True) (Array array_0) False store_2468
       = (Inl NotFittedError, store_2468)"
proof -
  have h: "fitted (TwoWayStandardScaler True True True) = None"
    by (simp add: TwoWayStandardScaler_def)
  show ?thesis
    using h not_fitted_guard [OF h, of "Dense [[1, 2], [3, 4]]" "Array array_0" False store_2468]
    by simp
qed

subsection \<open>C2: sparse arguments\<close>

text \<open>
  C2 as stated fails: on an estimator that has not been fitted, \<open>inverse_transform\<close> and
  \<open>transform\<close> test the fitted state first and raise \<open>NotFittedError\<close> for a sparse
  argument, not \<open>NotImplementedError\<close> (the spec's \<open>UnsupportedInputKind\<close>).
\<close>

theorem sparse_unfitted_counterexample:
  "fst (inverse_transform (TwoWayStandardScaler True True True) SparseMatrix False store_2468)
     \<noteq> Inl NotImplementedError
   \<and> transform (TwoWayStandardScaler True True True) Sparse \<noteq> Inl NotImplementedError"
  by (simp add: transform_def inverse_transform_def check_is_fitted_def TwoWayStandardScaler_def)

text \<open>
  C2, amended. For a sparse argument none of the four entry points computes a result:
  each raises. \<open>inverse_transform\<close> on a fitted estimator raises
  \<open>NotImplementedError\<close> and leaves the store as it was; on an estimator that has not
  been fitted, \<open>transform\<close> and \<open>inverse_transform\<close> raise \<open>NotFittedError\<close>. Which
  exception \<open>two_way_standardize\<close>, \<open>fit\<close> and \<open>transform\<close> on a fitted estimator
  raise is not part of the statement.
\<close>

theorem sparse_rejected:
  "isl (two_way_standardize Sparse with_std' max_iter tol verbose)
   \<and> isl (fit self Sparse)
   \<and> isl (transform self Sparse)
   \<and> isl (fst (inverse_transform self SparseMatrix copy' w))
   \<and> snd (inverse_transform self SparseMatrix copy' w) = w
   \<and> (fitted self \<noteq> None \<longrightarrow>
        inverse_transform self SparseMatrix copy' w = (Inl NotImplementedError, w))
   \<and> (fitted self = None \<longrightarrow>
        transform self Sparse = Inl NotFittedError
        \<and> inverse_transform self SparseMatrix copy' w = (Inl NotFittedError, w))"
  by (cases "fitted self")
     (simp_all add: two_way_standardize_def fit_def transform_def inverse_transform_def
        check_is_fitted_def check_array_def)

theorem sparse_rejected_witness:
  "fitted scaler_1234 \<noteq> None
   \<and> inverse_transform scaler_1234 SparseMatrix False store_2468
       = (Inl NotImplementedError, store_2468)
   \<and> fitted (TwoWayStandardScaler True True True) = None
   \<and> transform (TwoWayStandardScaler True True True) Sparse = Inl NotFittedError
   \<and> inverse_transform (TwoWayStandardScaler True True True) SparseMatrix False store_2468
       = (Inl NotFittedError, store_2468)
   \<and> isl (fit scaler_1234 Sparse) \<and> isl (transform scaler_1234 Sparse)
   \<and> isl (two_way_standardize Sparse True 50 (1 / 10 ^ 6) False)"
proof -
  have a: "fitted scaler_1234 \<noteq> None" by (simp add: fitted_scaler_1234)
  have b: "fitted (TwoWayStandardScaler True True True) = None"
    by (simp add: TwoWayStandardScaler_def)
  show ?thesis
    using a b
      sparse_rejected [of True 50 "1 / 10 ^ 6" False scaler_1234 False store_2468]
      sparse_rejected [of True 50 "1 / 10 ^ 6" False "TwoWayStandardScaler True True True"
                          False store_2468]
    by blast
qed

subsection \<open>C7: the value of \<open>inverse_transform\<close>\<close>

text \<open>
  C7. For every fitted estimator, every store and every dense argument, with or without
  \<open>copy\<close>, what \<open>inverse_transform\<close> returns (the array it returns, read in the final
  store, or the exception it raises) is what the spec's sequence gives on the value of
  the argument: transpose, multiply by the fitted row scale, add the fitted row mean,
  transpose back, multiply by the fitted column scale, add the fitted column mean, with
  the multiplications only under \<open>with_std\<close> and the additions only under \<open>with_mean\<close>.
  Nothing but the fitted attributes and the argument enters the result.
\<close>

theorem inverse_transform_value:
  "fitted self = Some a \<Longrightarrow> is_dense w X \<Longrightarrow>
   map_sum id (view_value (snd (inverse_transform self X copy' w)))
                 (fst (inverse_transform self X copy' w))
     = inverse_spec self a (obj_value w X)"
  using inverse_transform_dense [of self a w X copy'] by simp

theorem inverse_transform_value_witness:
  "fit (TwoWayStandardScaler True True True) (Dense [[1, 2], [3, 4]]) = Inr scaler_1234
   \<and> fitted scaler_1234 = Some fitted_1234 \<and> is_dense store_2468 (Array array_0)
   \<and> obj_value store_2468 (Array array_0) = [[2, 4], [6, 8]]
   \<and> map_sum id (view_value (snd (inverse_transform scaler_1234 (Array array_0) False store_2468)))
                 (fst (inverse_transform scaler_1234 (Array array_0) False store_2468))
       = Inr [[9 / 2, 13 / 2], [17 / 2, 21 / 2]]"
proof -
  have v: "obj_value store_2468 (Array array_0) = [[2, 4], [6, 8]]"
    by (simp add: obj_value_def view_value_def store_2468_def array_0_def)
  show ?thesis
    using inverse_transform_value [OF fitted_scaler_1234 dense_array_0, of False]
    by (simp add: fit_1234 fitted_scaler_1234 dense_array_0 v inverse_spec_2468)
qed

subsection \<open>C8: one warning for each call\<close>

text \<open>
  C8. Every call of \<open>inverse_transform\<close> on a fitted estimator with a dense argument
  adds exactly one warning, the one that says the inversion is not accurate, whatever the
  values of the argument, whatever \<open>copy\<close> is, and whether or not a later statement
  raises.
\<close>

theorem inverse_transform_warns_once:
  "fitted self = Some a \<Longrightarrow> is_dense w X \<Longrightarrow>
   warnings (snd (inverse_transform self X copy' w))
     = warnings w @ [''Reversing two way transformation is not accurate.'']"
  using inverse_transform_dense [of self a w X copy'] by simp

theorem inverse_transform_warns_once_witness:
  "fitted scaler_1234 = Some fitted_1234 \<and> is_dense store_2468 (Array array_0)
   \<and> warnings store_2468 = []
   \<and> warnings (snd (inverse_transform scaler_1234 (Array array_0) True store_2468))
       = [''Reversing two way transformation is not accurate.'']"
proof -
  have e: "warnings store_2468 = []" by (simp add: store_2468_def)
  show ?thesis
    using inverse_transform_warns_once [OF fitted_scaler_1234 dense_array_0, of True]
    by (simp add: fitted_scaler_1234 dense_array_0 e)
qed

subsection \<open>C10: in place, unless \<open>copy\<close> is set\<close>

text \<open>
  C10. Let the argument be an array of floats in the store and the estimator be fitted.
  With \<open>copy=False\<close>, a call that returns gives back a view equal to its argument (same
  buffer, same orientation), the caller's array then holds the inverse-transformed values,
  no buffer is allocated and no other buffer is written. With \<open>copy=True\<close>, every buffer
  that existed before the call is unchanged, so the caller's array has its old value, and
  a call that returns gives back an array in a fresh buffer.
\<close>

theorem inverse_transform_in_place:
  assumes f: "fitted self = Some a" and v: "valid_view w X0"
  shows
    "(\<forall>r. fst (inverse_transform self (Array X0) False w) = Inr r \<longrightarrow>
        r = X0
        \<and> inverse_spec self a (view_value w X0)
            = Inr (view_value (snd (inverse_transform self (Array X0) False w)) X0))
     \<and> length (heap (snd (inverse_transform self (Array X0) False w))) = length (heap w)
     \<and> (\<forall>i. i \<noteq> buf X0 \<longrightarrow>
           heap (snd (inverse_transform self (Array X0) False w)) ! i = heap w ! i)
     \<and> take (length (heap w)) (heap (snd (inverse_transform self (Array X0) True w))) = heap w
     \<and> view_value (snd (inverse_transform self (Array X0) True w)) X0 = view_value w X0
     \<and> (\<forall>r. fst (inverse_transform self (Array X0) True w) = Inr r \<longrightarrow>
           buf r = length (heap w))"
proof -
  let ?ww = "warn ''Reversing two way transformation is not accurate.'' w"
  have vw: "valid_view ?ww X0" using v by (simp add: valid_view_warn)
  have ok: "steps_ok self a X0 ?ww (inverse_transform self (Array X0) False w)"
    using inverse_steps_inplace [OF vw, of self a] f by (simp add: inverse_transform_Array)
  have 1: "\<forall>r. fst (inverse_transform self (Array X0) False w) = Inr r \<longrightarrow>
        r = X0
        \<and> inverse_spec self a (view_value w X0)
            = Inr (view_value (snd (inverse_transform self (Array X0) False w)) X0)"
    using ok by (auto simp add: steps_ok_def view_value_warn)
  have 2: "length (heap (snd (inverse_transform self (Array X0) False w))) = length (heap w)"
    using ok by (simp add: steps_ok_def heap_warn)
  have 3: "\<forall>i. i \<noteq> buf X0 \<longrightarrow>
           heap (snd (inverse_transform self (Array X0) False w)) ! i = heap w ! i"
    using ok by (simp add: steps_ok_def heap_warn)
  have m: "is_2d (view_value ?ww X0)" using vw by (rule is_2d_view_value)
  have o: "inverse_transform self (Array X0) True w =
             inverse_steps self a \<lparr>buf = length (heap ?ww), transposed = False\<rparr> False
               (?ww\<lparr>heap := heap ?ww @ [view_value ?ww X0]\<rparr>)"
    using f by (simp add: inverse_transform_Array inverse_steps_copy)
  have 4: "take (length (heap w)) (heap (snd (inverse_transform self (Array X0) True w))) = heap w"
    using steps_on_new_array(3) [OF m, where w = "?ww" and self = self and a = a] by (simp add: o heap_warn)
  have 5: "view_value (snd (inverse_transform self (Array X0) True w)) X0 = view_value w X0"
    using v 4 by (rule view_value_prefix)
  have 6: "\<forall>r. fst (inverse_transform self (Array X0) True w) = Inr r \<longrightarrow>
           buf r = length (heap w)"
    using steps_on_new_array(4) [OF m, where w = "?ww" and self = self and a = a] by (auto simp add: o heap_warn)
  show ?thesis using 1 2 3 4 5 6 by blast
qed

theorem inverse_transform_in_place_witness:
  "fitted scaler_1234 = Some fitted_1234 \<and> valid_view store_2468 array_0
   \<and> view_value store_2468 array_0 = [[2, 4], [6, 8]]
   \<and> fst (inverse_transform scaler_1234 (Array array_0) False store_2468) = Inr array_0
   \<and> view_value (snd (inverse_transform scaler_1234 (Array array_0) False store_2468)) array_0
       = [[9 / 2, 13 / 2], [17 / 2, 21 / 2]]
   \<and> view_value (snd (inverse_transform scaler_1234 (Array array_0) True store_2468)) array_0
       = [[2, 4], [6, 8]]
   \<and> fst (inverse_transform scaler_1234 (Array array_0) True store_2468)
       = Inr \<lparr>buf = 1, transposed = False\<rparr>"
proof -
  have val: "view_value store_2468 array_0 = [[2, 4], [6, 8]]"
    by (simp add: view_value_def store_2468_def array_0_def)
  have r: "fst (inverse_transform scaler_1234 (Array array_0) False store_2468) = Inr array_0"
    by (simp add: inverse_in_place_2468)
  have c: "fst (inverse_transform scaler_1234 (Array array_0) True store_2468)
             = Inr \<lparr>buf = 1, transposed = False\<rparr>"
    by (simp add: inverse_copy_2468)
  show ?thesis
    using inverse_transform_in_place [OF fitted_scaler_1234 valid_array_0] r c
    by (simp add: fitted_scaler_1234 valid_array_0 val inverse_spec_2468)
qed

end
